theory Spec2Isabelle
  imports Complex_Main
begin

section \<open>EnsembleTabPFN: the estimator of \<^verbatim>\<open>ensemble_tabpfn.py\<close>\<close>

text \<open>
  The estimator drives collaborators it does not implement: the row and feature samplers
  (module \<^verbatim>\<open>samplers\<close>), the records of module \<^verbatim>\<open>utils\<close>, the TabPFN classifier and
  scikit-learn. The model keeps the estimator's own control flow and takes every
  collaborator as a parameter. All mutable state outside the estimator's own attributes
  (the sampler objects, the classifier, the process-wide random generator) is one value
  of type \<open>'w\<close>; a collaborator call maps it to an outcome and a new value.
  Matrices have type \<open>'m\<close>, class labels \<open>'l\<close>, the feature samplers captured in an
  ensemble member \<open>'s\<close>.
\<close>

subsection \<open>Exceptions\<close>

text \<open>
  An exception raised by the estimator's own code is a constructor of \<open>error\<close>; an
  exception that comes out of a collaborator is \<open>Raised\<close> with the class name the
  collaborator reported. \<open>CapExceeded p cap v\<close> is the \<^verbatim>\<open>ValueError\<close> of the constructor:
  parameter \<open>p\<close> has value \<open>v\<close> above \<open>cap\<close>.
\<close>

datatype error =
    CapExceeded string int int
  | TypeError
  | AttributeError
  | NotFittedError
  | ShapeMismatch
  | Raised string

type_synonym ('a, 'w) ext = "'w \<Rightarrow> (string + 'a) \<times> 'w"

subsection \<open>Constants\<close>

text \<open>
  Modelled from the spec: \<^verbatim>\<open>TabPFNConstants\<close> is declared in module \<^verbatim>\<open>utils\<close>, which is
  not among the sources. The spec and the constructor's docstring give the global caps:
  1000 rows and 100 features.
\<close>

definition MAX_INP_SIZE :: int where
  "MAX_INP_SIZE = 1000"

definition MAX_FEAT_SIZE :: int where
  "MAX_FEAT_SIZE = 100"

subsection \<open>Data\<close>

text \<open>
  Modelled from the spec: \<^verbatim>\<open>Ensemble\<close> is declared in module \<^verbatim>\<open>utils\<close>; the source
  builds it from the two keyword fields below, and the spec describes it as the plain
  record of a row index set and a feature partitioning.
\<close>

record 's ensemble =
  data_indices :: "nat list"
  feat_samplers :: 's

text \<open>
  The attributes of \<^verbatim>\<open>self\<close>. \<open>ensembles\<close> is the attribute \<^verbatim>\<open>ensembles_\<close> (a name
  cannot end in an underscore here), \<open>None\<close> while the attribute does not exist. \<open>n_ensemble_configurations\<close> is read by \<^verbatim>\<open>_predict\<close> but never assigned by
  \<^verbatim>\<open>__init__\<close>, so it is \<open>None\<close> (absent) after construction. The objects held in
  \<^verbatim>\<open>self.data_sampler\<close>, \<^verbatim>\<open>self.feature_sampler\<close> and \<^verbatim>\<open>self.model\<close> live in \<open>world\<close>.
\<close>

record ('w, 's) estimator =
  n_samples :: int
  n_features :: int
  max_iters :: int
  random_state :: "int option"
  early_stopping_rounds :: int
  tolerance :: real
  n_ensemble_configurations :: "int option"
  ensembles :: "'s ensemble list option"
  world :: 'w

text \<open>The collaborators, as the estimator calls them.\<close>

record ('w, 'm, 'l, 's) collaborators =
  get_data_sampler :: "string \<Rightarrow> int \<Rightarrow> (unit, 'w) ext"
  new_feature_sampler :: "int \<Rightarrow> (unit, 'w) ext"
  new_classifier :: "int \<Rightarrow> (unit, 'w) ext"
  check_X_y :: "'m \<Rightarrow> 'l list \<Rightarrow> string + ('m \<times> 'l list)"
  train_test_split :: "int option \<Rightarrow> 'm \<Rightarrow> 'l list \<Rightarrow> ('m \<times> 'm \<times> 'l list \<times> 'l list, 'w) ext"
  sampler_sample :: "'m \<Rightarrow> 'l list \<Rightarrow> ('m \<times> 'l list \<times> nat list, 'w) ext"
  feature_sample :: "'m \<Rightarrow> 'l list option \<Rightarrow> ('m list, 'w) ext"
  feature_reduce :: "'m \<Rightarrow> ('m list, 'w) ext"
  get_samplers :: "('s, 'w) ext"
  model_fit :: "'m \<Rightarrow> 'l list \<Rightarrow> (unit, 'w) ext"
  model_predict :: "'m \<Rightarrow> ('l list, 'w) ext"
  accuracy_score :: "'l list \<Rightarrow> 'l list \<Rightarrow> string + real"

subsection \<open>The constructor\<close>

text \<open>Lines 59-67: the two cap checks, in the source's order.\<close>

definition cap_checks :: "int \<Rightarrow> int \<Rightarrow> error + unit" where
  "cap_checks n_samples' n_features' =
     (if \<not> (n_samples' \<le> MAX_INP_SIZE)
      then Inl (CapExceeded ''n_samples'' MAX_INP_SIZE n_samples')
      else if \<not> (n_features' \<le> MAX_FEAT_SIZE)
      then Inl (CapExceeded ''n_features'' MAX_FEAT_SIZE n_features')
      else Inr ())"

text \<open>
  \<^verbatim>\<open>__init__\<close>, lines 59-82. After the cap checks it builds the data sampler, the feature
  sampler and the classifier, each of which may raise. \<open>w\<close> is the state of the world
  before the call.
\<close>

definition init ::
  "('w, 'm, 'l, 's) collaborators \<Rightarrow> int \<Rightarrow> string \<Rightarrow> int \<Rightarrow> int \<Rightarrow> int option \<Rightarrow> int \<Rightarrow> real
     \<Rightarrow> int \<Rightarrow> 'w \<Rightarrow> (error + ('w, 's) estimator) \<times> 'w" where
  "init C max_iters' data_sampler' n_samples' n_features' random_state' early_stopping_rounds'
        tolerance' n_ensemble_configurations' w =
     (case cap_checks n_samples' n_features' of
        Inl e \<Rightarrow> (Inl e, w)
      | Inr _ \<Rightarrow>
         (case get_data_sampler C data_sampler' n_samples' w of
            (Inl x, w1) \<Rightarrow> (Inl (Raised x), w1)
          | (Inr _, w1) \<Rightarrow>
             (case new_feature_sampler C n_features' w1 of
                (Inl x, w2) \<Rightarrow> (Inl (Raised x), w2)
              | (Inr _, w2) \<Rightarrow>
                 (case new_classifier C n_ensemble_configurations' w2 of
                    (Inl x, w3) \<Rightarrow> (Inl (Raised x), w3)
                  | (Inr _, w3) \<Rightarrow>
                     (Inr \<lparr> n_samples = n_samples', n_features = n_features',
                            max_iters = max_iters', random_state = random_state',
                            early_stopping_rounds = early_stopping_rounds',
                            tolerance = tolerance',
                            n_ensemble_configurations = None,
                            ensembles = None, world = w3 \<rparr>, w3)))))"

subsection \<open>Calls and sequencing\<close>

text \<open>
  How Python binds a call to a method that has neither defaults nor starred parameters:
  \<open>npos\<close> positional arguments (after \<^verbatim>\<open>self\<close>) and the keyword names \<open>kws\<close> against the
  parameter names \<open>params\<close>. Too many positional arguments, a keyword that names no
  remaining parameter and a parameter left without a value each raise \<^verbatim>\<open>TypeError\<close>.
\<close>

definition binds :: "string list \<Rightarrow> nat \<Rightarrow> string list \<Rightarrow> bool" where
  "binds params npos kws \<longleftrightarrow>
     npos \<le> length params \<and> distinct kws \<and> set kws = set (drop npos params)"

text \<open>Sequencing of two steps on the estimator: an exception ends the computation.\<close>

definition bnd ::
  "('st \<Rightarrow> (error + 'a) \<times> 'st) \<Rightarrow> ('a \<Rightarrow> 'st \<Rightarrow> (error + 'b) \<times> 'st)
     \<Rightarrow> 'st \<Rightarrow> (error + 'b) \<times> 'st" where
  "bnd m f st = (case m st of (Inl e, st') \<Rightarrow> (Inl e, st') | (Inr v, st') \<Rightarrow> f v st')"

text \<open>A collaborator call made by the estimator: it acts on the world only.\<close>

definition lift_ext ::
  "('a, 'w) ext \<Rightarrow> ('w, 's) estimator \<Rightarrow> (error + 'a) \<times> ('w, 's) estimator" where
  "lift_ext f st =
     (case f (world st) of
        (Inl x, w) \<Rightarrow> (Inl (Raised x), st\<lparr>world := w\<rparr>)
      | (Inr v, w) \<Rightarrow> (Inr v, st\<lparr>world := w\<rparr>))"

subsection \<open>Sub-sampling\<close>

text \<open>\<^verbatim>\<open>_data_subsample(self, X, y)\<close>, lines 84-90.\<close>

definition data_subsample_params :: "string list" where
  "data_subsample_params = [''X'', ''y'']"

definition data_subsample ::
  "('w, 'm, 'l, 's) collaborators \<Rightarrow> 'm \<Rightarrow> 'l list \<Rightarrow> ('w, 's) estimator
     \<Rightarrow> (error + 'm \<times> 'l list \<times> nat list) \<times> ('w, 's) estimator" where
  "data_subsample C X y = lift_ext (sampler_sample C X y)"

text \<open>
  A call \<^verbatim>\<open>self._data_subsample(X, y, k1=..., k2=...)\<close> with two positional arguments and
  the keyword names \<open>kws\<close>.
\<close>

definition call_data_subsample ::
  "('w, 'm, 'l, 's) collaborators \<Rightarrow> string list \<Rightarrow> 'm \<Rightarrow> 'l list \<Rightarrow> ('w, 's) estimator
     \<Rightarrow> (error + 'm \<times> 'l list \<times> nat list) \<times> ('w, 's) estimator" where
  "call_data_subsample C kws X y st =
     (if binds data_subsample_params 2 kws then data_subsample C X y st
      else (Inl TypeError, st))"

text \<open>\<^verbatim>\<open>_feat_subsample(self, X, y=None, transform=False)\<close>, lines 92-100.\<close>

definition feat_subsample ::
  "('w, 'm, 'l, 's) collaborators \<Rightarrow> 'm \<Rightarrow> 'l list option \<Rightarrow> bool \<Rightarrow> ('w, 's) estimator
     \<Rightarrow> (error + 'm list) \<times> ('w, 's) estimator" where
  "feat_subsample C X y transform =
     (if transform then lift_ext (feature_reduce C X) else lift_ext (feature_sample C X y))"

subsection \<open>The fit loop\<close>

text \<open>
  \<^verbatim>\<open>best_loss\<close> starts as \<^verbatim>\<open>np.inf\<close> and is afterwards a value returned by
  \<^verbatim>\<open>evaluate\<close>. Scores and the tolerance are real numbers here: the rounding of the
  floating-point subtraction \<^verbatim>\<open>best_loss - self.tolerance\<close> is not modelled (it is exact
  when the tolerance is 0), and the tolerance is finite.
\<close>

datatype score = Fin real | PosInf

text \<open>The test \<^verbatim>\<open>loss < best_loss - self.tolerance\<close> of line 130.\<close>

fun improves :: "real \<Rightarrow> score \<Rightarrow> real \<Rightarrow> bool" where
  "improves loss PosInf tol = True"
| "improves loss (Fin best) tol = (loss < best - tol)"

text \<open>Lines 130-135: the update of \<^verbatim>\<open>best_loss\<close> and \<^verbatim>\<open>no_improvement\<close>.\<close>

definition tick :: "real \<Rightarrow> real \<Rightarrow> score \<times> int \<Rightarrow> score \<times> int" where
  "tick tol loss acc =
     (case acc of (best_loss, no_improvement) \<Rightarrow>
        if improves loss best_loss tol then (Fin loss, 0)
        else (best_loss, no_improvement + 1))"

text \<open>\<^verbatim>\<open>evaluate\<close>, lines 113-114.\<close>

definition evaluate ::
  "('w, 'm, 'l, 's) collaborators \<Rightarrow> 'l list \<Rightarrow> 'l list \<Rightarrow> ('w, 's) estimator
     \<Rightarrow> (error + real) \<times> ('w, 's) estimator" where
  "evaluate C y y_hat st =
     (case accuracy_score C y y_hat of
        Inl x \<Rightarrow> (Inl (Raised x), st)
      | Inr v \<Rightarrow> (Inr v, st))"

text \<open>
  The inner loop, lines 123-135, over the pairs of \<^verbatim>\<open>zip\<close>: fit on the training group,
  predict the validation group, score, update the two counters.
\<close>

fun scan_groups ::
  "('w, 'm, 'l, 's) collaborators \<Rightarrow> 'l list \<Rightarrow> 'l list \<Rightarrow> ('m \<times> 'm) list \<Rightarrow> score \<times> int
     \<Rightarrow> ('w, 's) estimator \<Rightarrow> (error + score \<times> int) \<times> ('w, 's) estimator" where
  "scan_groups C y y_val [] acc st = (Inr acc, st)"
| "scan_groups C y y_val ((train_new, test_new) # ps) acc st =
     bnd (lift_ext (model_fit C train_new y)) (\<lambda>_.
     bnd (lift_ext (model_predict C test_new)) (\<lambda>y_hat.
     bnd (evaluate C y_val y_hat) (\<lambda>loss st'.
       scan_groups C y y_val ps (tick (tolerance st') loss acc) st'))) st"

text \<open>\<^verbatim>\<open>self.ensembles_.append(ensemble)\<close>, line 139.\<close>

definition append_ensemble ::
  "'s ensemble \<Rightarrow> ('w, 's) estimator \<Rightarrow> (error + unit) \<times> ('w, 's) estimator" where
  "append_ensemble e st =
     (case ensembles st of
        None \<Rightarrow> (Inl AttributeError, st)
      | Some es \<Rightarrow> (Inr (), st\<lparr>ensembles := Some (es @ [e])\<rparr>))"

text \<open>
  One pass through the body of the outer loop, lines 118-139, up to the test of line 140.
  \<open>kws\<close> are the keyword names of the call of line 118.
\<close>

definition epoch_body ::
  "('w, 'm, 'l, 's) collaborators \<Rightarrow> string list \<Rightarrow> 'm \<Rightarrow> 'l list \<Rightarrow> 'm \<Rightarrow> 'l list
     \<Rightarrow> score \<times> int \<Rightarrow> ('w, 's) estimator \<Rightarrow> (error + score \<times> int) \<times> ('w, 's) estimator" where
  "epoch_body C kws X_train y_train X_val y_val acc =
     bnd (call_data_subsample C kws X_train y_train) (\<lambda>(x, y, indices).
     bnd (feat_subsample C x (Some y) False) (\<lambda>train_x_sampled_features.
     bnd (feat_subsample C X_val None True) (\<lambda>test_x_sampled_features.
     bnd (scan_groups C y y_val (zip train_x_sampled_features test_x_sampled_features) acc)
       (\<lambda>acc'.
     bnd (lift_ext (get_samplers C)) (\<lambda>samplers.
     bnd (append_ensemble \<lparr>data_indices = indices, feat_samplers = samplers\<rparr>) (\<lambda>_ st'.
       (Inr acc', st')))))))"

text \<open>
  The outer loop, lines 117-141, with \<open>k\<close> iterations of the budget left. Besides the
  outcome and the estimator, the result carries the number of iterations completed so
  far (\<open>done\<close>): the source does not store it, the statements about the number of
  iterations need it.
\<close>

fun epoch_loop ::
  "('w, 'm, 'l, 's) collaborators \<Rightarrow> string list \<Rightarrow> 'm \<Rightarrow> 'l list \<Rightarrow> 'm \<Rightarrow> 'l list \<Rightarrow> nat
     \<Rightarrow> score \<times> int \<Rightarrow> nat \<Rightarrow> ('w, 's) estimator
     \<Rightarrow> (error + unit) \<times> nat \<times> ('w, 's) estimator" where
  "epoch_loop C kws X_train y_train X_val y_val 0 acc done st = (Inr (), done, st)"
| "epoch_loop C kws X_train y_train X_val y_val (Suc k) acc done st =
     (case epoch_body C kws X_train y_train X_val y_val acc st of
        (Inl e, st') \<Rightarrow> (Inl e, done, st')
      | (Inr acc', st') \<Rightarrow>
          if snd acc' \<ge> early_stopping_rounds st' then (Inr (), Suc done, st')
          else epoch_loop C kws X_train y_train X_val y_val k acc' (Suc done) st')"

text \<open>
  \<^verbatim>\<open>_generate_ensembles\<close>, lines 102-141, with the keyword names of the call of line 118
  as a parameter; \<^verbatim>\<open>range(self.max_iters)\<close> is empty for a budget of 0 or less. The
  number of completed iterations is passed on with the outcome.
\<close>

definition generate_ensembles_kw ::
  "('w, 'm, 'l, 's) collaborators \<Rightarrow> string list \<Rightarrow> 'm \<Rightarrow> 'l list \<Rightarrow> ('w, 's) estimator
     \<Rightarrow> (error + unit) \<times> nat \<times> ('w, 's) estimator" where
  "generate_ensembles_kw C kws X y st =
     (case lift_ext (train_test_split C (random_state st) X y) st of
        (Inl e, st') \<Rightarrow> (Inl e, 0, st')
      | (Inr (X_train, X_val, y_train, y_val), st') \<Rightarrow>
          epoch_loop C kws X_train y_train X_val y_val (nat (max_iters st')) (PosInf, 0) 0 st')"

text \<open>\<^verbatim>\<open>fit\<close>, lines 143-155, over the same parameter.\<close>

definition fit_kw ::
  "('w, 'm, 'l, 's) collaborators \<Rightarrow> string list \<Rightarrow> 'm \<Rightarrow> 'l list \<Rightarrow> ('w, 's) estimator
     \<Rightarrow> (error + unit) \<times> nat \<times> ('w, 's) estimator" where
  "fit_kw C kws X y st =
     (case check_X_y C X y of
        Inl x \<Rightarrow> (Inl (Raised x), 0, st)
      | Inr (X', y') \<Rightarrow> generate_ensembles_kw C kws X' y' (st\<lparr>ensembles := Some []\<rparr>))"

text \<open>
  The source as it is written: line 119 passes \<^verbatim>\<open>random_state=self.random_state\<close> to
  \<^verbatim>\<open>_data_subsample\<close>.
\<close>

definition generate_ensembles ::
  "('w, 'm, 'l, 's) collaborators \<Rightarrow> 'm \<Rightarrow> 'l list \<Rightarrow> ('w, 's) estimator
     \<Rightarrow> (error + unit) \<times> nat \<times> ('w, 's) estimator" where
  "generate_ensembles C = generate_ensembles_kw C [''random_state'']"

definition fit ::
  "('w, 'm, 'l, 's) collaborators \<Rightarrow> 'm \<Rightarrow> 'l list \<Rightarrow> ('w, 's) estimator
     \<Rightarrow> (error + unit) \<times> nat \<times> ('w, 's) estimator" where
  "fit C = fit_kw C [''random_state'']"

subsection \<open>Aggregation of the collected probabilities\<close>

text \<open>
  Modelled from the spec: \<^verbatim>\<open>Result\<close> and its \<^verbatim>\<open>aggregate\<close> are declared in module
  \<^verbatim>\<open>utils\<close>, which is not among the sources. A probability array has one row per test
  row and one column per class; \<open>n_classes\<close> keeps the column count, so that an array
  without rows still has a shape. Numbers are reals: rounding is not modelled.
\<close>

record proba =
  n_classes :: nat
  prows :: "real list list"

definition shape :: "proba \<Rightarrow> nat \<times> nat" where
  "shape a = (length (prows a), n_classes a)"

definition well_shaped :: "proba \<Rightarrow> bool" where
  "well_shaped a \<longleftrightarrow> (\<forall>r \<in> set (prows a). length r = n_classes a)"

definition row_stochastic :: "proba \<Rightarrow> bool" where
  "row_stochastic a \<longleftrightarrow> (\<forall>r \<in> set (prows a). sum_list r = 1)"

definition add_proba :: "proba \<Rightarrow> proba \<Rightarrow> proba" where
  "add_proba a b =
     \<lparr> n_classes = n_classes a, prows = map2 (map2 (+)) (prows a) (prows b) \<rparr>"

definition scale_proba :: "real \<Rightarrow> proba \<Rightarrow> proba" where
  "scale_proba c a = \<lparr> n_classes = n_classes a, prows = map (map ((*) c)) (prows a) \<rparr>"

text \<open>
  Modelled from the spec: the label of a row is the class of its largest probability,
  the lowest class index among equals.
\<close>

fun argmax_from :: "nat \<Rightarrow> nat \<Rightarrow> real \<Rightarrow> real list \<Rightarrow> nat" where
  "argmax_from i b v [] = b"
| "argmax_from i b v (x # xs) =
     (if v < x then argmax_from (Suc i) i x xs else argmax_from (Suc i) b v xs)"

definition argmax :: "real list \<Rightarrow> nat" where
  "argmax r = (case r of [] \<Rightarrow> 0 | x # xs \<Rightarrow> argmax_from 1 0 x xs)"

text \<open>
  Modelled from the spec: the element-wise mean of the collected arrays, which must all
  have one shape, and the row-wise labels of that mean. The spec does not say what
  aggregating no array at all gives; here it raises.
\<close>

definition aggregate :: "proba list \<Rightarrow> error + proba \<times> nat list" where
  "aggregate raw_preds =
     (case raw_preds of
        [] \<Rightarrow> Inl (Raised ''ValueError'')
      | p # ps \<Rightarrow>
          if \<exists>q \<in> set ps. shape q \<noteq> shape p then Inl ShapeMismatch
          else let probs = scale_proba (1 / real (length raw_preds)) (foldl add_proba p ps)
               in Inr (probs, map argmax (prows probs)))"

text \<open>
  The running sum of \<open>k\<close> row-stochastic arrays of shape \<open>sh\<close>: it has that shape, and
  each of its rows sums to \<open>k\<close>.
\<close>

definition sums_to :: "real \<Rightarrow> nat \<times> nat \<Rightarrow> proba \<Rightarrow> bool" where
  "sums_to k sh a \<longleftrightarrow> shape a = sh \<and> well_shaped a \<and> (\<forall>r \<in> set (prows a). sum_list r = k)"

subsection \<open>Prediction\<close>

text \<open>
  \<^verbatim>\<open>check_is_fitted(self, attributes="ensembles_")\<close> of scikit-learn: the estimator counts
  as fitted when the attribute exists.
\<close>

definition check_is_fitted :: "('w, 's) estimator \<Rightarrow> (error + unit) \<times> ('w, 's) estimator" where
  "check_is_fitted st =
     (case ensembles st of None \<Rightarrow> (Inl NotFittedError, st) | Some _ \<Rightarrow> (Inr (), st))"

text \<open>
  The body of \<^verbatim>\<open>_predict(self, X, model)\<close>, lines 166-184. Line 168 reads
  \<^verbatim>\<open>self.n_ensemble_configurations\<close>; lines 166-169 build a new classifier; line 171
  checks that the estimator is fitted; line 173, \<^verbatim>\<open>for itr in self.max_iters\<close>, asks an
  integer for an iterator, which raises \<^verbatim>\<open>TypeError\<close> before the body of the loop runs.
  The body of that loop (lines 174-182) is never entered and has no model.
\<close>

definition predict_body ::
  "('w, 'm, 'l, 's) collaborators \<Rightarrow> 'm \<Rightarrow> ('w, 's) estimator
     \<Rightarrow> (error + proba list) \<times> ('w, 's) estimator" where
  "predict_body C X st =
     (case n_ensemble_configurations st of
        None \<Rightarrow> (Inl AttributeError, st)
      | Some n \<Rightarrow>
          bnd (lift_ext (new_classifier C n)) (\<lambda>_.
          bnd check_is_fitted (\<lambda>_ st'.
            (Inl TypeError, st'))) st)"

definition predict_params :: "string list" where
  "predict_params = [''X'', ''model'']"

text \<open>
  A call \<^verbatim>\<open>self._predict(...)\<close> with \<open>npos\<close> positional arguments, the first of them \<open>X\<close>,
  and the keyword names \<open>kws\<close>.
\<close>

definition call_predict ::
  "('w, 'm, 'l, 's) collaborators \<Rightarrow> nat \<Rightarrow> string list \<Rightarrow> 'm \<Rightarrow> ('w, 's) estimator
     \<Rightarrow> (error + proba list) \<times> ('w, 's) estimator" where
  "call_predict C npos kws X st =
     (if binds predict_params npos kws then predict_body C X st else (Inl TypeError, st))"

text \<open>
  \<^verbatim>\<open>predict\<close>, lines 186-203, and \<^verbatim>\<open>predict_proba\<close>, lines 205-222: both call
  \<^verbatim>\<open>self._predict(X)\<close>, with one positional argument, then aggregate.
\<close>

definition predict ::
  "('w, 'm, 'l, 's) collaborators \<Rightarrow> 'm \<Rightarrow> ('w, 's) estimator
     \<Rightarrow> (error + nat list) \<times> ('w, 's) estimator" where
  "predict C X =
     bnd (call_predict C 1 [] X) (\<lambda>raw_preds st'.
       case aggregate raw_preds of
         Inl e \<Rightarrow> (Inl e, st')
       | Inr (probs, preds) \<Rightarrow> (Inr preds, st'))"

definition predict_proba ::
  "('w, 'm, 'l, 's) collaborators \<Rightarrow> 'm \<Rightarrow> ('w, 's) estimator
     \<Rightarrow> (error + proba) \<times> ('w, 's) estimator" where
  "predict_proba C X =
     bnd (call_predict C 1 [] X) (\<lambda>raw_preds st'.
       case aggregate raw_preds of
         Inl e \<Rightarrow> (Inl e, st')
       | Inr (probs, preds) \<Rightarrow> (Inr probs, st'))"

subsection \<open>A concrete environment\<close>

text \<open>
  Small collaborators on which the statements below are evaluated. A matrix is its list
  of rows, a label a number. Validation wants as many rows as labels; the split keeps
  the last row for validation; the sampler returns every row; the feature sampler
  returns \<open>g\<close> groups; the classifier predicts class 0 for every row; the score is the
  fraction of equal labels.
\<close>

definition toy_accuracy :: "nat list \<Rightarrow> nat list \<Rightarrow> string + real" where
  "toy_accuracy y y_hat =
     (if length y = length y_hat
      then Inr (real (length (filter (\<lambda>(a, b). a = b) (zip y y_hat))) / real (length y))
      else Inl ''ValueError'')"

definition toy :: "nat \<Rightarrow> (nat, nat list list, nat, nat list list) collaborators" where
  "toy g = \<lparr> get_data_sampler = (\<lambda>name n w. (Inr (), w)),
           new_feature_sampler = (\<lambda>n w. (Inr (), w)),
           new_classifier = (\<lambda>n w. (Inr (), w)),
           check_X_y = (\<lambda>X y. if X \<noteq> [] \<and> length X = length y then Inr (X, y)
                               else Inl ''ValueError''),
           train_test_split = (\<lambda>seed X y w.
              if length X < 2 then (Inl ''ValueError'', w)
              else (Inr (butlast X, [last X], butlast y, [last y]), w)),
           sampler_sample = (\<lambda>X y w. (Inr (X, y, [0..<length X]), Suc w)),
           feature_sample = (\<lambda>X y w. (Inr (replicate g X), w)),
           feature_reduce = (\<lambda>X w. (Inr (replicate g X), w)),
           get_samplers = (\<lambda>w. (Inr [[0]], w)),
           model_fit = (\<lambda>X y w. (Inr (), Suc w)),
           model_predict = (\<lambda>X w. (Inr (map (\<lambda>r. 0) X), w)),
           accuracy_score = toy_accuracy \<rparr>"

definition toy_estimator :: "int \<Rightarrow> (nat, nat list list) estimator" where
  "toy_estimator patience = \<lparr> n_samples = 1000, n_features = 100, max_iters = 10,
       random_state = Some 0, early_stopping_rounds = patience, tolerance = 0,
       n_ensemble_configurations = None, ensembles = None, world = 0 \<rparr>"

definition toy_member :: "nat list list ensemble" where
  "toy_member = \<lparr>data_indices = [0, 1], feat_samplers = [[0]]\<rparr>"

definition toy_X :: "nat list list" where
  "toy_X = [[1], [2], [3]]"

definition toy_y :: "nat list" where
  "toy_y = [0, 1, 0]"

text \<open>An estimator that holds one member, as after an earlier fit.\<close>

definition toy_fitted :: "(nat, nat list list) estimator" where
  "toy_fitted = (toy_estimator 1)\<lparr>ensembles := Some [toy_member]\<rparr>"

text \<open>Two collected probability arrays of two rows and two classes.\<close>

definition toy_raw :: "proba list" where
  "toy_raw =
     [\<lparr>n_classes = 2, prows = [[1, 0], [1 / 2, 1 / 2]]\<rparr>,
      \<lparr>n_classes = 2, prows = [[0, 1], [1 / 4, 3 / 4]]\<rparr>]"

text \<open>
  The concrete environment with a classifier that is scripted: after its \<open>k\<close>-th fit it
  predicts the \<open>k\<close>-th list of \<open>preds\<close>.
\<close>

definition scripted :: "nat list list \<Rightarrow> (nat, nat list list, nat, nat list list) collaborators" where
  "scripted preds = (toy 1)\<lparr>model_predict := (\<lambda>X w. (Inr (preds ! (w - 1)), w))\<rparr>"


text \<open>
  Ten validation labels, and predictions that match them in 5, 9 and 1 places:
  accuracies 0.5, 0.9 and 0.1.
\<close>

definition val10 :: "nat list" where
  "val10 = [0, 0, 0, 0, 0, 0, 0, 0, 0, 0]"

definition hits5 :: "nat list" where
  "hits5 = [0, 0, 0, 0, 0, 1, 1, 1, 1, 1]"

definition hits9 :: "nat list" where
  "hits9 = [0, 0, 0, 0, 0, 0, 0, 0, 0, 1]"

definition hits1 :: "nat list" where
  "hits1 = [0, 1, 1, 1, 1, 1, 1, 1, 1, 1]"

text \<open>An estimator with the default tolerance.\<close>

definition toy_tolerant :: "(nat, nat list list) estimator" where
  "toy_tolerant = (toy_estimator 5)\<lparr>tolerance := 1 / 10000\<rparr>"

subsection \<open>Environments with a constant score\<close>

text \<open>
  An environment is steady at \<open>c\<close> when every collaborator call of the loop returns, each
  iteration has exactly one feature group, and every score is \<open>c\<close>: after the first
  group no score improves on the best.
\<close>

definition steady :: "('w, 'm, 'l, 's) collaborators \<Rightarrow> real \<Rightarrow> bool" where
  "steady C c \<longleftrightarrow>
     (\<forall>X y w. \<exists>x y' idx w'. sampler_sample C X y w = (Inr (x, y', idx), w'))
     \<and> (\<forall>X y w. \<exists>g w'. feature_sample C X y w = (Inr [g], w'))
     \<and> (\<forall>X w. \<exists>g w'. feature_reduce C X w = (Inr [g], w'))
     \<and> (\<forall>w. \<exists>fs w'. get_samplers C w = (Inr fs, w'))
     \<and> (\<forall>X y w. \<exists>w'. model_fit C X y w = (Inr (), w'))
     \<and> (\<forall>X w. \<exists>y_hat w'. model_predict C X w = (Inr y_hat, w'))
     \<and> (\<forall>y y_hat. accuracy_score C y y_hat = Inr c)"

text \<open>The simplest steady environment: nothing is sampled, every score is \<open>c\<close>.\<close>

definition constant_env :: "real \<Rightarrow> 's \<Rightarrow> ('w, 'm, 'l, 's) collaborators" where
  "constant_env c fs = \<lparr> get_data_sampler = (\<lambda>name n w. (Inr (), w)),
       new_feature_sampler = (\<lambda>n w. (Inr (), w)),
       new_classifier = (\<lambda>n w. (Inr (), w)),
       check_X_y = (\<lambda>X y. Inr (X, y)),
       train_test_split = (\<lambda>seed X y w. (Inr (X, X, y, y), w)),
       sampler_sample = (\<lambda>X y w. (Inr (X, y, []), w)),
       feature_sample = (\<lambda>X y w. (Inr [X], w)),
       feature_reduce = (\<lambda>X w. (Inr [X], w)),
       get_samplers = (\<lambda>w. (Inr fs, w)),
       model_fit = (\<lambda>X y w. (Inr (), w)),
       model_predict = (\<lambda>X w. (Inr [], w)),
       accuracy_score = (\<lambda>y y_hat. Inr c) \<rparr>"

section \<open>Properties\<close>

subsection \<open>Sequencing and the retained list\<close>

lemmas toy_simps = toy_def toy_estimator_def toy_X_def toy_y_def toy_accuracy_def
  fit_def fit_kw_def generate_ensembles_kw_def epoch_body_def bnd_def lift_ext_def
  call_data_subsample_def data_subsample_def data_subsample_params_def binds_def
  feat_subsample_def evaluate_def tick_def append_ensemble_def


lemma bnd_Inl:
  "bnd m f st = (Inl e, st') \<longleftrightarrow>
     m st = (Inl e, st') \<or> (\<exists>u s1. m st = (Inr u, s1) \<and> f u s1 = (Inl e, st'))"
  by (auto simp: bnd_def split: prod.splits sum.splits)








lemma append_ensemble_Inl:
  "append_ensemble e st = (Inl x, st') \<Longrightarrow> st' = st"
  by (auto simp: append_ensemble_def split: option.splits)








subsection \<open>The constructor's cap checks\<close>

text \<open>
  C10. Construction validates only the upper bounds on \<^verbatim>\<open>n_samples\<close> and
  \<^verbatim>\<open>n_features\<close>: the cap checks pass exactly when \<^verbatim>\<open>n_samples\<close> is at most 1000 and
  \<^verbatim>\<open>n_features\<close> at most 100, so every value below the caps passes, zero and negative
  values included.
\<close>

theorem cap_checks_only_upper_bounds:
  "cap_checks n f = Inr () \<longleftrightarrow> n \<le> 1000 \<and> f \<le> 100"
  by (simp add: cap_checks_def MAX_INP_SIZE_def MAX_FEAT_SIZE_def)

theorem cap_checks_only_upper_bounds_witness:
  "(- 5 :: int) \<le> 1000 \<and> (0 :: int) \<le> 100 \<and> cap_checks (- 5) 0 = Inr ()"
  using cap_checks_only_upper_bounds [of "- 5" 0] by simp

text \<open>
  C6. A constructor call with \<^verbatim>\<open>n_samples\<close> above 1000 or \<^verbatim>\<open>n_features\<close> above 100
  raises the configuration error, before any collaborator is built (the world is
  unchanged) and without any data (the constructor takes none). Within the caps the
  constructor raises no configuration error: it returns an estimator that stores both
  values as they were given, unless one of the collaborators' own constructors raises.
\<close>

theorem init_cap_checks:
  "(MAX_INP_SIZE < n \<longrightarrow>
      init C mi ds n f rs esr tol nec w = (Inl (CapExceeded ''n_samples'' MAX_INP_SIZE n), w))
   \<and> (n \<le> MAX_INP_SIZE \<and> MAX_FEAT_SIZE < f \<longrightarrow>
      init C mi ds n f rs esr tol nec w = (Inl (CapExceeded ''n_features'' MAX_FEAT_SIZE f), w))
   \<and> (n \<le> MAX_INP_SIZE \<and> f \<le> MAX_FEAT_SIZE \<longrightarrow>
      (case fst (init C mi ds n f rs esr tol nec w) of
         Inl e \<Rightarrow> \<exists>x. e = Raised x
       | Inr est \<Rightarrow> n_samples est = n \<and> n_features est = f))"
  by (auto simp: init_def cap_checks_def split: prod.splits sum.splits)

theorem init_cap_checks_witness:
  "init (toy 1) 100 ''bootstrap'' 1500 100 None 5 (1 / 10000) 4 0
     = (Inl (CapExceeded ''n_samples'' 1000 1500), 0)
   \<and> init (toy 1) 100 ''bootstrap'' 1000 101 None 5 (1 / 10000) 4 0
     = (Inl (CapExceeded ''n_features'' 100 101), 0)
   \<and> (\<exists>est. fst (init (toy 1) 100 ''bootstrap'' 1000 100 None 5 (1 / 10000) 4 0) = Inr est
         \<and> n_samples est = 1000 \<and> n_features est = 100)"
  using init_cap_checks [where n = 1500 and f = 100 and C = "toy 1" and mi = 100
      and ds = "''bootstrap''" and rs = None and esr = 5 and tol = "1 / 10000" and nec = 4
      and w = 0]
    init_cap_checks [where n = 1000 and f = 101 and C = "toy 1" and mi = 100
      and ds = "''bootstrap''" and rs = None and esr = 5 and tol = "1 / 10000" and nec = 4
      and w = 0]
    init_cap_checks [where n = 1000 and f = 100 and C = "toy 1" and mi = 100
      and ds = "''bootstrap''" and rs = None and esr = 5 and tol = "1 / 10000" and nec = 4
      and w = 0]
  by (simp add: MAX_INP_SIZE_def MAX_FEAT_SIZE_def init_def cap_checks_def toy_def)

subsection \<open>The source's call of \<^verbatim>\<open>_data_subsample\<close>\<close>

text \<open>
  \<^verbatim>\<open>_data_subsample\<close> takes \<^verbatim>\<open>X\<close> and \<^verbatim>\<open>y\<close> only, so the call of lines 118-120, which
  also passes \<^verbatim>\<open>random_state\<close>, raises \<^verbatim>\<open>TypeError\<close>. The first pass through the loop
  body ends there.
\<close>

lemma source_call_TypeError:
  "call_data_subsample C [''random_state''] X y st = (Inl TypeError, st)"
  by (simp add: call_data_subsample_def binds_def data_subsample_params_def)

lemma source_epoch_body:
  "epoch_body C [''random_state''] X_train y_train X_val y_val acc st = (Inl TypeError, st)"
  by (simp add: epoch_body_def bnd_def source_call_TypeError)

lemma source_epoch_loop:
  "epoch_loop C [''random_state''] X_train y_train X_val y_val k acc d st =
     ((if k = 0 then Inr () else Inl TypeError), d, st)"
  by (cases k) (simp_all add: source_epoch_body)

text \<open>
  C1. The claim is that with a tolerance of 0 and scores that never improve after the
  first iteration the fit loop stops after exactly \<^verbatim>\<open>early_stopping_rounds + 1\<close>
  iterations. What the source does instead: whenever the training data pass validation,
  the split succeeds and the budget is at least 1, \<^verbatim>\<open>fit\<close> raises \<^verbatim>\<open>TypeError\<close> in its
  first iteration, with no iteration completed and an empty list of members.
\<close>

theorem fit_first_iteration_TypeError:
  assumes "check_X_y C X y = Inr (X', y')"
    and "train_test_split C (random_state st) X' y' (world st) = (Inr sp, w1)"
    and "1 \<le> max_iters st"
  shows "fit C X y st = (Inl TypeError, 0, st\<lparr>ensembles := Some [], world := w1\<rparr>)"
  using assms
  by (cases sp) (simp add: fit_def fit_kw_def generate_ensembles_kw_def lift_ext_def
      source_epoch_loop)

theorem fit_first_iteration_TypeError_witness:
  "check_X_y (toy 1) toy_X toy_y = Inr (toy_X, toy_y)
   \<and> 1 \<le> max_iters (toy_estimator 5)
   \<and> fit (toy 1) toy_X toy_y (toy_estimator 5)
       = (Inl TypeError, 0, (toy_estimator 5)\<lparr>ensembles := Some []\<rparr>)"
  using fit_first_iteration_TypeError [where C = "toy 1" and X = toy_X and y = toy_y
      and X' = toy_X and y' = toy_y and st = "toy_estimator 5"
      and sp = "([[1], [2]], [[3]], [0, 1], [0])" and ?w1.0 = 0]
  by (simp add: toy_def toy_estimator_def toy_X_def toy_y_def)

text \<open>
  With the call of line 118 written as \<^verbatim>\<open>_data_subsample\<close> accepts it (no keyword), the
  loop runs. On the concrete environment with one feature group per iteration and a
  patience of 1 it stops after 2 iterations; with two feature groups per iteration and a
  patience of 3 it also stops after 2 iterations, since \<^verbatim>\<open>no_improvement\<close> counts
  feature groups, not iterations.
\<close>

lemma one_group_patience_1_example:
  "fst (snd (fit_kw (toy 1) [] toy_X toy_y (toy_estimator 1))) = 2"
  by (simp add: toy_simps eval_nat_numeral)

lemma two_groups_patience_3_example:
  "fst (snd (fit_kw (toy 2) [] toy_X toy_y (toy_estimator 3))) = 2"
  by (simp add: toy_simps eval_nat_numeral)

text \<open>
  In general, with a well-formed call, a tolerance of 0 and a steady environment, the
  loop completes exactly \<^verbatim>\<open>early_stopping_rounds + 1\<close> iterations, provided the patience
  is not negative and the budget is larger than the patience.
\<close>

lemma steady_constant_env: "steady (constant_env c fs) c"
  by (simp add: steady_def constant_env_def)

lemma steady_epoch_body:
  assumes "steady C c" and "ensembles st = Some es"
  shows "\<exists>st'. epoch_body C [] X_train y_train X_val y_val acc st
            = (Inr (tick (tolerance st) c acc), st')
          \<and> tolerance st' = tolerance st
          \<and> early_stopping_rounds st' = early_stopping_rounds st
          \<and> (\<exists>es'. ensembles st' = Some es')"
proof -
  from assms(1) obtain x y idx w1 where
    1: "sampler_sample C X_train y_train (world st) = (Inr (x, y, idx), w1)"
    unfolding steady_def by blast
  from assms(1) obtain g w2 where 2: "feature_sample C x (Some y) w1 = (Inr [g], w2)"
    unfolding steady_def by blast
  from assms(1) obtain h w3 where 3: "feature_reduce C X_val w2 = (Inr [h], w3)"
    unfolding steady_def by blast
  from assms(1) obtain w4 where 4: "model_fit C g y w3 = (Inr (), w4)"
    unfolding steady_def by blast
  from assms(1) obtain y_hat w5 where 5: "model_predict C h w4 = (Inr y_hat, w5)"
    unfolding steady_def by blast
  from assms(1) have 6: "accuracy_score C y_val y_hat = Inr c"
    unfolding steady_def by blast
  from assms(1) obtain fs w7 where 7: "get_samplers C w5 = (Inr fs, w7)"
    unfolding steady_def by blast
  show ?thesis
    using 1 2 3 4 5 6 7 assms(2)
    by (simp add: epoch_body_def bnd_def call_data_subsample_def binds_def
        data_subsample_params_def data_subsample_def lift_ext_def feat_subsample_def
        evaluate_def append_ensemble_def)
qed

lemma steady_epoch_loop_tail:
  assumes "steady C c" and "ensembles st = Some es" and "tolerance st = 0"
    and "n < early_stopping_rounds st" and "early_stopping_rounds st - n \<le> int k"
  shows "\<exists>st'. epoch_loop C [] X_train y_train X_val y_val k (Fin c, n) d st
           = (Inr (), d + nat (early_stopping_rounds st - n), st')"
  using assms(2-)
proof (induction k arbitrary: n d st es)
  case 0
  then show ?case by simp
next
  case (Suc k)
  from steady_epoch_body[OF assms(1) Suc.prems(1), of X_train y_train X_val y_val "(Fin c, n)"]
  obtain st1 es1 where b: "epoch_body C [] X_train y_train X_val y_val (Fin c, n) st
            = (Inr (tick (tolerance st) c (Fin c, n)), st1)"
    and t: "tolerance st1 = tolerance st"
    and e: "early_stopping_rounds st1 = early_stopping_rounds st"
    and m: "ensembles st1 = Some es1"
    by blast
  have tk: "tick (tolerance st) c (Fin c, n) = (Fin c, n + 1)"
    using Suc.prems(2) by (simp add: tick_def)
  show ?case
  proof (cases "n + 1 \<ge> early_stopping_rounds st")
    case True
    with Suc.prems(3) have "nat (early_stopping_rounds st - n) = 1" by simp
    with True b tk e show ?thesis by simp
  next
    case False
    have "\<exists>st'. epoch_loop C [] X_train y_train X_val y_val k (Fin c, n + 1) (Suc d) st1
           = (Inr (), Suc d + nat (early_stopping_rounds st1 - (n + 1)), st')"
      using False Suc.prems t e by (intro Suc.IH[OF m]) auto
    then obtain st' where
      l: "epoch_loop C [] X_train y_train X_val y_val k (Fin c, n + 1) (Suc d) st1
           = (Inr (), Suc d + nat (early_stopping_rounds st1 - (n + 1)), st')"
      by blast
    have "Suc d + nat (early_stopping_rounds st1 - (n + 1))
        = d + nat (early_stopping_rounds st - n)"
      using False e by simp
    with l have "epoch_loop C [] X_train y_train X_val y_val k (Fin c, n + 1) (Suc d) st1
           = (Inr (), d + nat (early_stopping_rounds st - n), st')"
      by (simp only:)
    with False b tk e show ?thesis by simp
  qed
qed

lemma steady_one_group_stops_after_patience_plus_one:
  assumes "steady C c" and "ensembles st = Some es" and "tolerance st = 0"
    and "0 \<le> early_stopping_rounds st" and "early_stopping_rounds st < int k"
  shows "\<exists>st'. epoch_loop C [] X_train y_train X_val y_val k (PosInf, 0) 0 st
           = (Inr (), nat (early_stopping_rounds st) + 1, st')"
proof -
  from assms(5,4) obtain k' where k: "k = Suc k'" by (cases k) auto
  from steady_epoch_body[OF assms(1,2), of X_train y_train X_val y_val "(PosInf, 0)"]
  obtain st1 es1 where b: "epoch_body C [] X_train y_train X_val y_val (PosInf, 0) st
            = (Inr (tick (tolerance st) c (PosInf, 0)), st1)"
    and t: "tolerance st1 = tolerance st"
    and e: "early_stopping_rounds st1 = early_stopping_rounds st"
    and m: "ensembles st1 = Some es1"
    by blast
  have tk: "tick (tolerance st) c (PosInf, 0) = (Fin c, 0)"
    by (simp add: tick_def)
  show ?thesis
  proof (cases "early_stopping_rounds st = 0")
    case True
    with b tk e k show ?thesis by simp
  next
    case False
    with assms(4) have pos: "0 < early_stopping_rounds st1" using e by simp
    have "early_stopping_rounds st1 - 0 \<le> int k'" using assms(5) k e by simp
    from steady_epoch_loop_tail[OF assms(1) m _ pos this, of X_train y_train X_val y_val 1]
      t assms(3)
    obtain st' where "epoch_loop C [] X_train y_train X_val y_val k' (Fin c, 0) 1 st1
           = (Inr (), 1 + nat (early_stopping_rounds st1 - 0), st')"
      by auto
    with False b tk e k pos show ?thesis by simp
  qed
qed

lemma steady_fit_kw_iterations:
  assumes "steady C c" and "check_X_y C X y = Inr (X', y')"
    and "train_test_split C (random_state st) X' y' (world st) = (Inr sp, w1)"
    and "tolerance st = 0"
    and "0 \<le> early_stopping_rounds st" and "early_stopping_rounds st < max_iters st"
  shows "\<exists>st'. fit_kw C [] X y st = (Inr (), nat (early_stopping_rounds st) + 1, st')"
proof -
  obtain X_train X_val y_train y_val where sp: "sp = (X_train, X_val, y_train, y_val)"
    by (cases sp)
  let ?st1 = "st\<lparr>ensembles := Some [], world := w1\<rparr>"
  have "early_stopping_rounds ?st1 < int (nat (max_iters ?st1))"
    using assms(5,6) by simp
  from steady_one_group_stops_after_patience_plus_one
    [OF assms(1), of ?st1 "[]" "nat (max_iters ?st1)" X_train y_train X_val y_val, OF _ _ _ this]
    assms(4,5)
  obtain st' where "epoch_loop C [] X_train y_train X_val y_val (nat (max_iters ?st1))
      (PosInf, 0) 0 ?st1 = (Inr (), nat (early_stopping_rounds ?st1) + 1, st')"
    by auto
  with assms(2,3) sp show ?thesis
    by (simp add: fit_kw_def generate_ensembles_kw_def lift_ext_def)
qed

lemma constant_env_example:
  "\<exists>st'. fit_kw (constant_env (1 / 2) [[0]]) [] toy_X toy_y (toy_estimator 5)
     = (Inr (), 6, st')"
  using steady_fit_kw_iterations [where C = "constant_env (1 / 2) [[0]]" and c = "1 / 2"
      and X = toy_X and y = toy_y and X' = toy_X and y' = toy_y and st = "toy_estimator 5"
      and sp = "(toy_X, toy_X, toy_y, toy_y)" and ?w1.0 = 0, OF steady_constant_env]
  by (simp add: constant_env_def toy_estimator_def)

subsection \<open>Retention\<close>



text \<open>
  In the source as it is written no iteration completes, so \<^verbatim>\<open>fit\<close> on data that pass
  validation always leaves an empty list of members.
\<close>

lemma fit_members_empty:
  assumes "check_X_y C X y = Inr v"
  shows "ensembles (snd (snd (fit C X y st))) = Some []"
proof -
  obtain X' y' where v: "v = (X', y')" by (cases v)
  let ?st0 = "st\<lparr>ensembles := Some []\<rparr>"
  show ?thesis
  proof (cases "train_test_split C (random_state st) X' y' (world st)")
    case (Pair o1 w1)
    then show ?thesis using assms v
      by (cases o1)
        (auto simp: fit_def fit_kw_def generate_ensembles_kw_def lift_ext_def source_epoch_loop
          split: prod.splits)
  qed
qed

subsection \<open>The seed\<close>

text \<open>
  The seed is read once, by the split of line 107. Sampling, feature partitioning and
  the retained members do not depend on it: for one split, the run of the loop is the
  same whatever \<open>random_state\<close> holds, for every keyword list of the call of line 118.
\<close>

lemma lift_ext_seed:
  "lift_ext f (st\<lparr>random_state := s\<rparr>)
     = (case lift_ext f st of (r, st') \<Rightarrow> (r, st'\<lparr>random_state := s\<rparr>))"
  by (simp add: lift_ext_def split: prod.splits sum.splits)

lemma bnd_seed:
  assumes "\<And>st. m (st\<lparr>random_state := s\<rparr>)
             = (case m st of (r, st') \<Rightarrow> (r, st'\<lparr>random_state := s\<rparr>))"
    and "\<And>v st. f v (st\<lparr>random_state := s\<rparr>)
             = (case f v st of (r, st') \<Rightarrow> (r, st'\<lparr>random_state := s\<rparr>))"
  shows "bnd m f (st\<lparr>random_state := s\<rparr>)
           = (case bnd m f st of (r, st') \<Rightarrow> (r, st'\<lparr>random_state := s\<rparr>))"
  by (simp add: bnd_def assms split: prod.splits sum.splits)

lemma scan_groups_seed:
  "scan_groups C y y_val ps acc (st\<lparr>random_state := s\<rparr>)
     = (case scan_groups C y y_val ps acc st of (r, st') \<Rightarrow> (r, st'\<lparr>random_state := s\<rparr>))"
proof (induction ps arbitrary: acc st)
  case Nil
  show ?case by simp
next
  case (Cons p ps)
  obtain tr te where p: "p = (tr, te)" by (cases p)
  show ?case
    unfolding p scan_groups.simps
    by (intro bnd_seed lift_ext_seed) (simp add: evaluate_def split: sum.splits, simp add: Cons.IH)
qed

lemma epoch_body_seed:
  "epoch_body C kws X_train y_train X_val y_val acc (st\<lparr>random_state := s\<rparr>)
     = (case epoch_body C kws X_train y_train X_val y_val acc st of
          (r, st') \<Rightarrow> (r, st'\<lparr>random_state := s\<rparr>))"
  unfolding epoch_body_def
  apply (rule bnd_seed)
   apply (simp add: call_data_subsample_def data_subsample_def lift_ext_seed)
  apply (simp only: split_paired_all prod.case)
  apply (intro bnd_seed scan_groups_seed lift_ext_seed)
    apply (simp add: feat_subsample_def lift_ext_seed)
   apply (simp add: feat_subsample_def lift_ext_seed)
   apply (simp add: append_ensemble_def split: option.splits)
  apply simp
  done

lemma epoch_loop_seed:
  "epoch_loop C kws X_train y_train X_val y_val k acc d (st\<lparr>random_state := s\<rparr>)
     = (case epoch_loop C kws X_train y_train X_val y_val k acc d st of
          (r, n, st') \<Rightarrow> (r, n, st'\<lparr>random_state := s\<rparr>))"
proof (induction k arbitrary: acc d st)
  case 0
  show ?case by simp
next
  case (Suc k)
  show ?case
    by (simp add: epoch_body_seed Suc.IH split: prod.splits sum.splits)
qed



subsection \<open>The no-improvement counter\<close>

text \<open>
  C7. The claim is that a feature group whose validation score improves on the running
  best by more than the tolerance resets the counter and updates the best, and that any
  other group increments the counter. The score is the accuracy computed by
  \<^verbatim>\<open>evaluate\<close>, for which higher is better. What the source does for every group that is
  evaluated, against a best that is a score already seen: when the accuracy rises above
  the best, the best is kept and the counter is incremented; when the accuracy falls
  below the best by more than the tolerance, the counter is reset to 0 and the lower
  accuracy becomes the best.
\<close>

theorem scan_groups_accuracy_direction:
  assumes "model_fit C train_new y (world st) = (Inr u, w1)"
    and "model_predict C test_new w1 = (Inr y_hat, w2)"
    and "accuracy_score C y_val y_hat = Inr accuracy"
  shows "(best < accuracy \<and> 0 \<le> tolerance st \<longrightarrow>
           scan_groups C y y_val ((train_new, test_new) # ps) (Fin best, no_improvement) st
           = scan_groups C y y_val ps (Fin best, no_improvement + 1) (st\<lparr>world := w2\<rparr>))
         \<and> (accuracy < best - tolerance st \<longrightarrow>
           scan_groups C y y_val ((train_new, test_new) # ps) (Fin best, no_improvement) st
           = scan_groups C y y_val ps (Fin accuracy, 0) (st\<lparr>world := w2\<rparr>))"
  using assms
  by (auto simp: bnd_def lift_ext_def evaluate_def tick_def)

lemmas scripted_simps = scripted_def toy_def toy_estimator_def toy_accuracy_def toy_tolerant_def
  val10_def hits5_def hits9_def hits1_def bnd_def lift_ext_def evaluate_def tick_def

theorem scan_groups_accuracy_direction_witness:
  "scan_groups (scripted [hits5, hits9]) [0, 1] val10
       [([[1], [2]], [[3]]), ([[1], [2]], [[3]])] (PosInf, 0) toy_tolerant
     = (Inr (Fin (1 / 2), 1), toy_tolerant\<lparr>world := 2\<rparr>)
   \<and> scan_groups (scripted [hits5, hits1]) [0, 1] val10
       [([[1], [2]], [[3]]), ([[1], [2]], [[3]])] (PosInf, 3) toy_tolerant
     = (Inr (Fin (1 / 10), 0), toy_tolerant\<lparr>world := 2\<rparr>)"
proof -
  have first: "\<And>second. scan_groups (scripted [hits5, second]) [0, 1] val10
       [([[1], [2]], [[3]]), ([[1], [2]], [[3]])] (PosInf, 3) toy_tolerant
     = scan_groups (scripted [hits5, second]) [0, 1] val10 [([[1], [2]], [[3]])]
         (Fin (1 / 2), 0) (toy_tolerant\<lparr>world := 1\<rparr>)"
    "\<And>second. scan_groups (scripted [hits5, second]) [0, 1] val10
       [([[1], [2]], [[3]]), ([[1], [2]], [[3]])] (PosInf, 0) toy_tolerant
     = scan_groups (scripted [hits5, second]) [0, 1] val10 [([[1], [2]], [[3]])]
         (Fin (1 / 2), 0) (toy_tolerant\<lparr>world := 1\<rparr>)"
    by (simp_all add: scripted_simps)
  have up: "scan_groups (scripted [hits5, hits9]) [0, 1] val10 [([[1], [2]], [[3]])]
         (Fin (1 / 2), 0) (toy_tolerant\<lparr>world := 1\<rparr>)
       = (Inr (Fin (1 / 2), 1), toy_tolerant\<lparr>world := 2\<rparr>)"
    using scan_groups_accuracy_direction [where C = "scripted [hits5, hits9]"
        and train_new = "[[1], [2]]" and y = "[0, 1]" and st = "toy_tolerant\<lparr>world := 1\<rparr>"
        and u = "()" and ?w1.0 = 2 and test_new = "[[3]]" and y_hat = hits9 and ?w2.0 = 2
        and y_val = val10 and accuracy = "9 / 10" and best = "1 / 2" and no_improvement = 0
        and ps = "[]"]
    by (simp add: scripted_simps)
  have down: "scan_groups (scripted [hits5, hits1]) [0, 1] val10 [([[1], [2]], [[3]])]
         (Fin (1 / 2), 0) (toy_tolerant\<lparr>world := 1\<rparr>)
       = (Inr (Fin (1 / 10), 0), toy_tolerant\<lparr>world := 2\<rparr>)"
    using scan_groups_accuracy_direction [where C = "scripted [hits5, hits1]"
        and train_new = "[[1], [2]]" and y = "[0, 1]" and st = "toy_tolerant\<lparr>world := 1\<rparr>"
        and u = "()" and ?w1.0 = 2 and test_new = "[[3]]" and y_hat = hits1 and ?w2.0 = 2
        and y_val = val10 and accuracy = "1 / 10" and best = "1 / 2" and no_improvement = 0
        and ps = "[]"]
    by (simp add: scripted_simps)
  show ?thesis
    by (simp only: first up down)
qed

subsection \<open>The reset of the retained list\<close>

text \<open>
  C9, as stated, fails: a call of \<^verbatim>\<open>fit\<close> whose data are rejected by \<^verbatim>\<open>check_X_y\<close>
  (line 153) raises before the reset of line 154. The member of an earlier fit is then
  still there, and on a new estimator the list does not exist rather than being empty.
\<close>

theorem fit_rejected_keeps_members:
  "fit (toy 1) [] [0] toy_fitted = (Inl (Raised ''ValueError''), 0, toy_fitted)
   \<and> ensembles toy_fitted = Some [toy_member]
   \<and> fit (toy 1) [] [0] (toy_estimator 1) = (Inl (Raised ''ValueError''), 0, toy_estimator 1)
   \<and> ensembles (toy_estimator 1) = None"
  by (simp add: toy_simps toy_member_def toy_fitted_def)

text \<open>
  C9, amended. Every call of \<^verbatim>\<open>fit\<close> whose training data pass \<^verbatim>\<open>check_X_y\<close> resets the
  retained list before generating members: its whole result is the same whatever list
  the estimator held before (\<open>prev\<close>), so earlier members are discarded, never
  accumulated. A call whose data fail validation raises and leaves the estimator
  unchanged. This holds for every keyword list of the call of line 118, the source's
  included.
\<close>

theorem fit_resets_members_when_validated:
  "(check_X_y C X y = Inr v \<longrightarrow>
      fit_kw C kws X y (st\<lparr>ensembles := prev\<rparr>) = fit_kw C kws X y (st\<lparr>ensembles := Some []\<rparr>))
   \<and> (check_X_y C X y = Inl x \<longrightarrow> fit_kw C kws X y st = (Inl (Raised x), 0, st))"
  by (auto simp: fit_kw_def split: prod.splits)

theorem fit_resets_members_when_validated_witness:
  "check_X_y (toy 1) toy_X toy_y = Inr (toy_X, toy_y)
   \<and> fit_kw (toy 1) [] toy_X toy_y toy_fitted
       = fit_kw (toy 1) [] toy_X toy_y ((toy_estimator 1)\<lparr>ensembles := Some []\<rparr>)
   \<and> ensembles (snd (snd (fit_kw (toy 1) [] toy_X toy_y toy_fitted)))
       = Some [toy_member, toy_member]
   \<and> check_X_y (toy 1) [] [0] = Inl ''ValueError''
   \<and> fit_kw (toy 1) [] [] [0] toy_fitted = (Inl (Raised ''ValueError''), 0, toy_fitted)"
  using fit_resets_members_when_validated [where C = "toy 1" and X = toy_X and y = toy_y
      and v = "(toy_X, toy_y)" and kws = "[]" and st = "toy_estimator 1"
      and prev = "Some [toy_member]"]
    fit_resets_members_when_validated [where C = "toy 1" and X = "[]" and y = "[0]"
      and x = "''ValueError''" and kws = "[]" and st = toy_fitted]
  by (simp add: toy_simps toy_member_def toy_fitted_def eval_nat_numeral)

subsection \<open>Prediction\<close>

text \<open>
  \<^verbatim>\<open>_predict\<close> takes \<^verbatim>\<open>X\<close> and \<^verbatim>\<open>model\<close>; \<^verbatim>\<open>predict\<close> and \<^verbatim>\<open>predict_proba\<close> pass \<^verbatim>\<open>X\<close>
  only, so the call raises \<^verbatim>\<open>TypeError\<close>. However \<^verbatim>\<open>_predict\<close> is called, it raises.
\<close>

lemma call_predict_raises:
  "\<exists>e st'. call_predict C npos kws X st = (Inl e, st')"
  by (auto simp: call_predict_def predict_body_def bnd_def lift_ext_def check_is_fitted_def
      split: option.splits prod.splits sum.splits)

lemma source_call_predict:
  "call_predict C 1 [] X st = (Inl TypeError, st)"
  by (simp add: call_predict_def binds_def predict_params_def)

lemma source_predict: "predict C X st = (Inl TypeError, st)"
  unfolding predict_def bnd_def source_call_predict by simp

lemma source_predict_proba: "predict_proba C X st = (Inl TypeError, st)"
  unfolding predict_proba_def bnd_def source_call_predict by simp

text \<open>
  C4. The claim is that \<^verbatim>\<open>predict\<close> and \<^verbatim>\<open>predict_proba\<close> before any fit fail with a
  not-fitted condition without any classifier call. What the source does: both raise
  \<^verbatim>\<open>TypeError\<close>, not the not-fitted error; the estimator and the world are unchanged,
  so no classifier call has been made. The check of line 171, which would raise the
  not-fitted error on such an estimator, is not reached.
\<close>

theorem predict_before_fit_TypeError:
  assumes "ensembles st = None"
  shows "predict C X st = (Inl TypeError, st) \<and> predict_proba C X st = (Inl TypeError, st)
         \<and> check_is_fitted st = (Inl NotFittedError, st)"
  using assms by (simp add: source_predict source_predict_proba check_is_fitted_def)

theorem predict_before_fit_TypeError_witness:
  "ensembles (toy_estimator 5) = None
   \<and> predict (toy 1) toy_X (toy_estimator 5) = (Inl TypeError, toy_estimator 5)
   \<and> predict_proba (toy 1) toy_X (toy_estimator 5) = (Inl TypeError, toy_estimator 5)
   \<and> check_is_fitted (toy_estimator 5) = (Inl NotFittedError, toy_estimator 5)"
  using predict_before_fit_TypeError [where st = "toy_estimator 5" and C = "toy 1" and X = toy_X]
  by (simp add: toy_estimator_def)

text \<open>
  C5. The claim is that on a fitted estimator the predict loop visits every retained
  member once and collects one probability array per member and feature group. What the
  source does: \<^verbatim>\<open>predict\<close> and \<^verbatim>\<open>predict_proba\<close> raise \<^verbatim>\<open>TypeError\<close> before
  \<^verbatim>\<open>_predict\<close> runs, and \<^verbatim>\<open>_predict\<close> itself raises for every way of calling it, so no
  member is visited and no array is collected.
\<close>

theorem predict_never_collects:
  assumes "ensembles st = Some es"
  shows "predict C X st = (Inl TypeError, st) \<and> predict_proba C X st = (Inl TypeError, st)
         \<and> (\<forall>npos kws. \<exists>e st'. call_predict C npos kws X st = (Inl e, st'))"
  by (simp add: source_predict source_predict_proba call_predict_raises)

theorem predict_never_collects_witness:
  "ensembles toy_fitted = Some [toy_member]
   \<and> predict (toy 1) toy_X toy_fitted = (Inl TypeError, toy_fitted)"
  using predict_never_collects [where st = toy_fitted and es = "[toy_member]" and C = "toy 1"
      and X = toy_X]
  by (simp add: toy_fitted_def)

subsection \<open>Aggregation\<close>

lemma sum_list_map2_add:
  "length r1 = length r2 \<Longrightarrow> sum_list (map2 (+) r1 r2) = sum_list r1 + (sum_list r2 :: real)"
  by (induction r1 r2 rule: list_induct2) simp_all

lemma add_proba_sums_to:
  assumes "sums_to k sh a" and "sums_to 1 sh b"
  shows "sums_to (k + 1) sh (add_proba a b)"
proof -
  from assms have len: "length (prows a) = length (prows b)" and nc: "n_classes a = n_classes b"
    by (auto simp: sums_to_def shape_def)
  have rows: "\<And>r. r \<in> set (prows (add_proba a b)) \<Longrightarrow>
      \<exists>ra rb. ra \<in> set (prows a) \<and> rb \<in> set (prows b) \<and> r = map2 (+) ra rb"
    by (auto simp: add_proba_def dest: set_zip_leftD set_zip_rightD)
  show ?thesis
    unfolding sums_to_def
  proof (intro conjI ballI)
    show "shape (add_proba a b) = sh"
      using assms len by (simp add: sums_to_def shape_def add_proba_def)
  next
    show "well_shaped (add_proba a b)"
      unfolding well_shaped_def
    proof
      fix r assume "r \<in> set (prows (add_proba a b))"
      from rows[OF this] obtain ra rb where
        "ra \<in> set (prows a)" "rb \<in> set (prows b)" "r = map2 (+) ra rb" by blast
      with assms nc show "length r = n_classes (add_proba a b)"
        by (simp add: sums_to_def well_shaped_def add_proba_def)
    qed
  next
    fix r assume "r \<in> set (prows (add_proba a b))"
    from rows[OF this] obtain ra rb where
      r: "ra \<in> set (prows a)" "rb \<in> set (prows b)" "r = map2 (+) ra rb" by blast
    with assms nc have "length ra = length rb"
      by (simp add: sums_to_def well_shaped_def)
    with r assms show "sum_list r = k + 1"
      by (simp add: sum_list_map2_add sums_to_def)
  qed
qed

lemma foldl_add_proba_sums_to:
  assumes "sums_to k sh p" and "\<forall>q \<in> set ps. sums_to 1 sh q"
  shows "sums_to (k + real (length ps)) sh (foldl add_proba p ps)"
  using assms
proof (induction ps arbitrary: p k)
  case Nil
  then show ?case by simp
next
  case (Cons q ps)
  from Cons.prems have "sums_to (k + 1) sh (add_proba p q)"
    by (simp add: add_proba_sums_to)
  from Cons.IH[OF this] Cons.prems(2) show ?case
    by (simp add: algebra_simps)
qed

lemma add_proba_nth:
  assumes "shape a = shape b" and "well_shaped a" and "well_shaped b"
    and "i < length (prows a)" and "j < n_classes a"
  shows "prows (add_proba a b) ! i ! j = prows a ! i ! j + prows b ! i ! j"
proof -
  from assms have "i < length (prows b)" "length (prows a ! i) = n_classes a"
    "length (prows b ! i) = n_classes a"
    by (auto simp: shape_def well_shaped_def)
  with assms show ?thesis by (simp add: add_proba_def)
qed

lemma foldl_add_proba_nth:
  assumes "sums_to k sh p" and "\<forall>q \<in> set ps. sums_to 1 sh q"
    and "i < fst sh" and "j < snd sh"
  shows "prows (foldl add_proba p ps) ! i ! j
         = prows p ! i ! j + (\<Sum>a\<leftarrow>ps. prows a ! i ! j)"
  using assms
proof (induction ps arbitrary: p k)
  case Nil
  then show ?case by simp
next
  case (Cons q ps)
  from Cons.prems have s: "sums_to (k + 1) sh (add_proba p q)"
    by (simp add: add_proba_sums_to)
  from Cons.prems have "prows (add_proba p q) ! i ! j = prows p ! i ! j + prows q ! i ! j"
    by (intro add_proba_nth) (auto simp: sums_to_def shape_def)
  with Cons.IH[OF s] Cons.prems show ?case by simp
qed

lemma aggregate_mismatch:
  assumes "a \<in> set raw" and "b \<in> set raw" and "shape a \<noteq> shape b"
  shows "aggregate raw = Inl ShapeMismatch"
proof (cases raw)
  case Nil
  with assms show ?thesis by simp
next
  case (Cons p ps)
  have "\<exists>q \<in> set ps. shape q \<noteq> shape p"
  proof (rule ccontr)
    assume "\<not> (\<exists>q \<in> set ps. shape q \<noteq> shape p)"
    with assms Cons have "shape a = shape p" "shape b = shape p" by auto
    with assms show False by simp
  qed
  with Cons show ?thesis by (simp add: aggregate_def)
qed

lemma aggregate_mean:
  assumes "raw \<noteq> []"
    and all: "\<forall>a \<in> set raw. well_shaped a \<and> row_stochastic a \<and> shape a = shape (hd raw)"
  shows "\<exists>probs preds. aggregate raw = Inr (probs, preds)
           \<and> shape probs = shape (hd raw) \<and> well_shaped probs \<and> row_stochastic probs
           \<and> (\<forall>i < length (prows probs). \<forall>j < n_classes probs.
                 prows probs ! i ! j = (\<Sum>a\<leftarrow>raw. prows a ! i ! j) / real (length raw))"
proof -
  from assms(1) obtain p ps where raw: "raw = p # ps" by (cases raw) auto
  let ?sh = "shape p"
  let ?n = "real (length raw)"
  let ?acc = "foldl add_proba p ps"
  let ?probs = "scale_proba (1 / ?n) ?acc"
  have p: "sums_to 1 ?sh p" and ps: "\<forall>q \<in> set ps. sums_to 1 ?sh q"
    using all raw by (auto simp: sums_to_def row_stochastic_def)
  have acc: "sums_to ?n ?sh ?acc"
    using foldl_add_proba_sums_to[OF p ps] raw by (simp add: add.commute)
  have n: "?n \<noteq> 0" using raw by simp
  have agg: "aggregate raw = Inr (?probs, map argmax (prows ?probs))"
    using ps raw by (auto simp: aggregate_def sums_to_def Let_def)
  have sh: "shape ?probs = ?sh"
    using acc by (simp add: sums_to_def shape_def scale_proba_def)
  have ws: "well_shaped ?probs"
    using acc by (simp add: sums_to_def well_shaped_def scale_proba_def)
  have rs: "row_stochastic ?probs"
    using acc n by (auto simp: sums_to_def row_stochastic_def scale_proba_def sum_list_const_mult)
  have el: "\<forall>i < length (prows ?probs). \<forall>j < n_classes ?probs.
              prows ?probs ! i ! j = (\<Sum>a\<leftarrow>raw. prows a ! i ! j) / ?n"
  proof (intro allI impI)
    fix i j assume i: "i < length (prows ?probs)" and j: "j < n_classes ?probs"
    from i j sh have i': "i < fst ?sh" and j': "j < snd ?sh"
      by (auto simp: shape_def)
    from acc i' j' have li: "i < length (prows ?acc)" and lj: "j < length (prows ?acc ! i)"
      by (auto simp: sums_to_def shape_def well_shaped_def)
    have "prows ?probs ! i ! j = (1 / ?n) * prows ?acc ! i ! j"
      using li lj by (simp add: scale_proba_def)
    also have "\<dots> = (1 / ?n) * (prows p ! i ! j + (\<Sum>a\<leftarrow>ps. prows a ! i ! j))"
      using foldl_add_proba_nth[OF p ps i' j'] by simp
    finally show "prows ?probs ! i ! j = (\<Sum>a\<leftarrow>raw. prows a ! i ! j) / ?n"
      using raw by simp
  qed
  from agg sh ws rs el raw show ?thesis by simp
qed

text \<open>
  C8. For a non-empty collection of probability arrays of one shape, each with rows that
  sum to 1, \<^verbatim>\<open>aggregate\<close> returns the array of that shape whose entries are the means of
  the corresponding entries, and its rows sum to 1 as well; if two collected arrays
  differ in shape, \<^verbatim>\<open>aggregate\<close> fails with the shape-mismatch error.
\<close>

theorem aggregate_mean_row_stochastic:
  "(raw \<noteq> [] \<and> (\<forall>a \<in> set raw. well_shaped a \<and> row_stochastic a \<and> shape a = shape (hd raw)) \<longrightarrow>
      (\<exists>probs preds. aggregate raw = Inr (probs, preds)
         \<and> shape probs = shape (hd raw) \<and> well_shaped probs \<and> row_stochastic probs
         \<and> (\<forall>i < length (prows probs). \<forall>j < n_classes probs.
               prows probs ! i ! j = (\<Sum>a\<leftarrow>raw. prows a ! i ! j) / real (length raw))))
   \<and> ((\<exists>a \<in> set raw. \<exists>b \<in> set raw. shape a \<noteq> shape b) \<longrightarrow> aggregate raw = Inl ShapeMismatch)"
  using aggregate_mean [of raw] aggregate_mismatch [of _ raw] by blast

theorem aggregate_mean_row_stochastic_witness:
  "length toy_raw = 2
   \<and> well_shaped (toy_raw ! 0) \<and> row_stochastic (toy_raw ! 0)
   \<and> well_shaped (toy_raw ! 1) \<and> row_stochastic (toy_raw ! 1)
   \<and> shape (toy_raw ! 1) = shape (toy_raw ! 0)
   \<and> aggregate toy_raw
       = Inr (\<lparr>n_classes = 2, prows = [[1 / 2, 1 / 2], [3 / 8, 5 / 8]]\<rparr>, [0, 1])
   \<and> row_stochastic \<lparr>n_classes = 2, prows = [[1 / 2, 1 / 2], [3 / 8, 5 / 8]]\<rparr>
   \<and> aggregate (toy_raw @ [\<lparr>n_classes = 3, prows = [[0, 1, 0], [0, 0, 1]]\<rparr>])
       = Inl ShapeMismatch"
proof -
  have a: "toy_raw \<noteq> []"
    and b: "\<forall>a \<in> set toy_raw. well_shaped a \<and> row_stochastic a \<and> shape a = shape (hd toy_raw)"
    by (simp_all add: toy_raw_def well_shaped_def row_stochastic_def shape_def)
  have c: "aggregate toy_raw
       = Inr (\<lparr>n_classes = 2, prows = [[1 / 2, 1 / 2], [3 / 8, 5 / 8]]\<rparr>, [0, 1])"
    by (simp add: toy_raw_def aggregate_def shape_def add_proba_def scale_proba_def argmax_def)
  have d: "\<exists>a \<in> set (toy_raw @ [\<lparr>n_classes = 3, prows = [[0, 1, 0], [0, 0, 1]]\<rparr>]).
           \<exists>b \<in> set (toy_raw @ [\<lparr>n_classes = 3, prows = [[0, 1, 0], [0, 0, 1]]\<rparr>]).
             shape a \<noteq> shape b"
    by (rule bexI [where x = "\<lparr>n_classes = 2, prows = [[1, 0], [1 / 2, 1 / 2]]\<rparr>"],
        rule bexI [where x = "\<lparr>n_classes = 3, prows = [[0, 1, 0], [0, 0, 1]]\<rparr>"])
      (simp_all add: toy_raw_def shape_def)
  have ab: "toy_raw \<noteq> []
      \<and> (\<forall>a \<in> set toy_raw. well_shaped a \<and> row_stochastic a \<and> shape a = shape (hd toy_raw))"
    using a b by (rule conjI)
  from aggregate_mean_row_stochastic [of toy_raw, THEN conjunct1, THEN mp, OF ab]
  obtain probs preds where e: "aggregate toy_raw = Inr (probs, preds)"
    and f: "row_stochastic probs"
    by (elim exE conjE)
  from e c have "probs = \<lparr>n_classes = 2, prows = [[1 / 2, 1 / 2], [3 / 8, 5 / 8]]\<rparr>"
    by simp
  with f have g: "row_stochastic \<lparr>n_classes = 2, prows = [[1 / 2, 1 / 2], [3 / 8, 5 / 8]]\<rparr>"
    by simp
  have h: "aggregate (toy_raw @ [\<lparr>n_classes = 3, prows = [[0, 1, 0], [0, 0, 1]]\<rparr>])
       = Inl ShapeMismatch"
    by (rule aggregate_mean_row_stochastic
        [of "toy_raw @ [\<lparr>n_classes = 3, prows = [[0, 1, 0], [0, 0, 1]]\<rparr>]",
          THEN conjunct2, THEN mp, OF d])
  have i: "length toy_raw = 2"
    and j: "well_shaped (toy_raw ! 0)" "row_stochastic (toy_raw ! 0)"
      "well_shaped (toy_raw ! 1)" "row_stochastic (toy_raw ! 1)"
      "shape (toy_raw ! 1) = shape (toy_raw ! 0)"
    by (simp_all add: toy_raw_def well_shaped_def row_stochastic_def shape_def)
  show ?thesis
    by (intro conjI i j c g h)
qed

end
